theory Spec2Isabelle
  imports Main
begin

section \<open>Values at run time\<close>

text \<open>
  The type annotations of the source are erased when it is compiled, and the assertion
  \<^verbatim>\<open>as RawDataBlogPost[]\<close> (\<^verbatim>\<open>src/App.tsx\<close>, line 25) checks nothing: what the code handles is
  whatever value the JSON decoder produced. A decoded value is \<^verbatim>\<open>null\<close>, a boolean, a number,
  a string, an array or an object; \<^verbatim>\<open>undefined\<close> is what reading a missing property gives.
  Numbers are kept as integers, which the identifiers are; the code copies a number and
  never computes with it. An object is the list of its own properties, looked up by name.
\<close>

datatype js_value =
    JS_undefined
  | JS_null
  | JS_bool bool
  | JS_number int
  | JS_string string
  | JS_array "js_value list"
  | JS_object "(string \<times> js_value) list"

fun nullish :: "js_value \<Rightarrow> bool" where
  "nullish JS_undefined = True"
| "nullish JS_null = True"
| "nullish v = False"



text \<open>
  A value that a \<^verbatim>\<open>throw\<close> or a rejected promise carries. The only thing the code asks of
  it is \<^verbatim>\<open>error instanceof Error\<close> and then \<^verbatim>\<open>error.message\<close>: \<open>ErrorInstance m\<close> is an
  \<^verbatim>\<open>Error\<close> (or an instance of a subclass such as \<^verbatim>\<open>TypeError\<close>, \<^verbatim>\<open>SyntaxError\<close>) whose message
  is \<open>m\<close>; \<open>NonError v\<close> is any other thrown value, kept as its text.
\<close>

datatype thrown = ErrorInstance string | NonError string

text \<open>
  Reading a property \<^verbatim>\<open>v.name\<close>, for a name that no built-in prototype defines (such are
  \<^verbatim>\<open>userId\<close>, \<^verbatim>\<open>title\<close>, \<^verbatim>\<open>body\<close> and, but for arrays, \<^verbatim>\<open>map\<close>): on \<^verbatim>\<open>null\<close> and \<^verbatim>\<open>undefined\<close> it
  throws a \<^verbatim>\<open>TypeError\<close>; on an object it gives the own property of that name or
  \<^verbatim>\<open>undefined\<close>; on every other value it gives \<^verbatim>\<open>undefined\<close>. The wording of the message
  is the engine's and nothing depends on it.
\<close>

definition property :: "js_value \<Rightarrow> string \<Rightarrow> js_value" where
  "property v name =
     (case v of
        JS_object props \<Rightarrow> (case map_of props name of Some x \<Rightarrow> x | None \<Rightarrow> JS_undefined)
      | _ \<Rightarrow> JS_undefined)"

definition cannot_read :: "string \<Rightarrow> string \<Rightarrow> string" where
  "cannot_read what name =
     ''Cannot read properties of '' @ what @ '' (reading '' @ [CHR 0x27] @ name @ [CHR 0x27] @ '')''"

definition get_property :: "js_value \<Rightarrow> string \<Rightarrow> thrown + js_value" where
  "get_property v name =
     (case v of
        JS_undefined \<Rightarrow> Inl (ErrorInstance (cannot_read ''undefined'' name))
      | JS_null \<Rightarrow> Inl (ErrorInstance (cannot_read ''null'' name))
      | _ \<Rightarrow> Inr (property v name))"







section \<open>Data model\<close>


text \<open>
  \<^verbatim>\<open>src/components/BlogPosts.tsx\<close>:
  \<^verbatim>\<open>
  export type BlogPost = { id: string; title: string; text: string };
  \<close>
  An object with these three properties; each holds the value that was copied into it.
\<close>

record BlogPost =
  post_id :: js_value
  post_title :: js_value
  post_text :: js_value

text \<open>
  The three \<^verbatim>\<open>useState\<close> cells of \<^verbatim>\<open>App\<close> (lines 15-17). \<^verbatim>\<open>useState<BlogPost[]>()\<close> and
  \<^verbatim>\<open>useState<string>()\<close> start as \<^verbatim>\<open>undefined\<close>, which is \<open>None\<close> here.
\<close>

record app_state =
  fetchedPosts :: "BlogPost list option"
  isFetching :: bool
  error :: "string option"

definition initial_state :: app_state where
  "initial_state = \<lparr>fetchedPosts = None, isFetching = False, error = None\<rparr>"

text \<open>
  A call of one of the three state setters. The asynchronous function never reads the
  state; it only calls setters, so what it does is the sequence of its calls.
\<close>

datatype setter_call =
    Call_setFetchedPosts "BlogPost list"
  | Call_setIsFetching bool
  | Call_setError string

fun apply_call :: "app_state \<Rightarrow> setter_call \<Rightarrow> app_state" where
  "apply_call s (Call_setFetchedPosts v) = s\<lparr>fetchedPosts := Some v\<rparr>"
| "apply_call s (Call_setIsFetching b) = s\<lparr>isFetching := b\<rparr>"
| "apply_call s (Call_setError m) = s\<lparr>error := Some m\<rparr>"

definition state_after :: "setter_call list \<Rightarrow> app_state" where
  "state_after calls = foldl apply_call initial_state calls"

definition setFetchedPosts :: "BlogPost list \<Rightarrow> setter_call list \<Rightarrow> setter_call list" where
  "setFetchedPosts v log = log @ [Call_setFetchedPosts v]"

definition setIsFetching :: "bool \<Rightarrow> setter_call list \<Rightarrow> setter_call list" where
  "setIsFetching b log = log @ [Call_setIsFetching b]"

definition setError :: "string \<Rightarrow> setter_call list \<Rightarrow> setter_call list" where
  "setError m log = log @ [Call_setError m]"

section \<open>The transformer\<close>

text \<open>
  \<^verbatim>\<open>Array.prototype.map\<close> calls the callback on each element from left to right and collects
  the results; a callback may throw, which ends the loop, and may change the store \<open>'s\<close>
  it closes over.
\<close>

fun array_map ::
  "('a \<Rightarrow> 's \<Rightarrow> (thrown + 'b) \<times> 's) \<Rightarrow> 'a list \<Rightarrow> 's \<Rightarrow> (thrown + 'b list) \<times> 's" where
  "array_map f [] s = (Inr [], s)"
| "array_map f (x # xs) s =
     (case f x s of
        (Inl e, s1) \<Rightarrow> (Inl e, s1)
      | (Inr y, s1) \<Rightarrow>
          (case array_map f xs s1 of
             (Inl e, s2) \<Rightarrow> (Inl e, s2)
           | (Inr ys, s2) \<Rightarrow> (Inr (y # ys), s2)))"

text \<open>
  Lines 27-33, the callback:
  \<^verbatim>\<open>
  (rawPost) => { return { id: rawPost.userId, title: rawPost.title, text: rawPost.body }; }
  \<close>
  The three properties are read in this order, the first read that throws ends the call,
  and the values read are put into the new object as they are. Nothing is assigned and
  nothing else is called, so the store is passed through.
\<close>

definition mapPost :: "js_value \<Rightarrow> 's \<Rightarrow> (thrown + BlogPost) \<times> 's" where
  "mapPost rawPost s =
     (case get_property rawPost ''userId'' of
        Inl e \<Rightarrow> (Inl e, s)
      | Inr userId \<Rightarrow>
          (case get_property rawPost ''title'' of
             Inl e \<Rightarrow> (Inl e, s)
           | Inr title \<Rightarrow>
               (case get_property rawPost ''body'' of
                  Inl e \<Rightarrow> (Inl e, s)
                | Inr body \<Rightarrow> (Inr \<lparr>post_id = userId, post_title = title, post_text = body\<rparr>, s))))"

text \<open>\<^verbatim>\<open>data.map((rawPost) => ...)\<close> on an array \<open>data\<close>.\<close>

definition transformer :: "js_value list \<Rightarrow> 's \<Rightarrow> (thrown + BlogPost list) \<times> 's" where
  "transformer data s = array_map mapPost data s"

text \<open>
  The same expression on any decoded value: only an array has the method. On \<^verbatim>\<open>null\<close> the
  read of \<^verbatim>\<open>data.map\<close> throws; on every other value \<^verbatim>\<open>data.map\<close> is not a function (an
  object's own property \<^verbatim>\<open>map\<close> is a decoded value, never a function) and the call throws
  a \<^verbatim>\<open>TypeError\<close>.
\<close>

definition data_map :: "js_value \<Rightarrow> 's \<Rightarrow> (thrown + BlogPost list) \<times> 's" where
  "data_map data s =
     (case data of
        JS_array elements \<Rightarrow> transformer elements s
      | _ \<Rightarrow>
          (case get_property data ''map'' of
             Inl e \<Rightarrow> (Inl e, s)
           | Inr f \<Rightarrow> (Inl (ErrorInstance ''data.map is not a function''), s)))"

text \<open>
  What the callback returns when no read throws, as a function of the element: the
  three properties, each copied as it is.
\<close>

definition toBlogPost :: "js_value \<Rightarrow> BlogPost" where
  "toBlogPost rawPost =
     \<lparr>post_id = property rawPost ''userId'', post_title = property rawPost ''title'',
      post_text = property rawPost ''body''\<rparr>"

section \<open>The HTTP helper\<close>

text \<open>
  What the code reads of the value \<^verbatim>\<open>fetch\<close> resolves with: the flag \<^verbatim>\<open>response.ok\<close> and the
  outcome of \<^verbatim>\<open>response.json()\<close>, which is the decoded body or the value the decoder
  rejects with. The status code is a field of the response that the helper never reads.
\<close>

record 'a response =
  ok :: bool
  status :: nat
  json :: "thrown + 'a"

text \<open>The operations the helper performs, in order.\<close>

datatype http_op = Op_fetch string | Op_json

text \<open>
  \<^verbatim>\<open>src/utils/http.ts\<close> is imported by \<^verbatim>\<open>App.tsx\<close>; the listing of the helper is the one of
  \<^verbatim>\<open>README.md\<close>, lines 105-114:
  \<^verbatim>\<open>
  export async function get<T>(url: string) {
    const response = await fetch(url);
    if (!response.ok) { throw new Error("Failed to fetch data."); }
    const data = (await response.json()) as unknown;
    return data as T;
  }
  \<close>
  \<open>fetch\<close> is the environment: it resolves with a response or rejects. A rejection of
  \<^verbatim>\<open>fetch\<close> or of \<^verbatim>\<open>response.json()\<close> is not caught, so it is the rejection of \<open>get\<close>. The
  type assertions do nothing at run time.
\<close>

definition get :: "(string \<Rightarrow> thrown + 'a response) \<Rightarrow> string \<Rightarrow> http_op list \<times> (thrown + 'a)" where
  "get fetch url =
     (case fetch url of
        Inl e \<Rightarrow> ([Op_fetch url], Inl e)
      | Inr response \<Rightarrow>
          if \<not> ok response then ([Op_fetch url], Inl (ErrorInstance ''Failed to fetch data.''))
          else ([Op_fetch url, Op_json], json response))"

section \<open>The view controller\<close>

definition posts_url :: string where
  "posts_url = ''https://jsonplaceholder.typicode.com/posts''"

text \<open>
  Lines 21-41. The imported helper is the parameter \<open>http_get\<close>: the outcome of
  \<^verbatim>\<open>await get(url)\<close>, a rejection (\<open>Inl\<close>) or the decoded value. The function describes a
  fetch that settles; a promise that never settles never reaches the code after
  \<^verbatim>\<open>await\<close>. A throw inside \<^verbatim>\<open>data.map\<close> is caught by the same \<^verbatim>\<open>catch\<close> clause as a rejection.
  \<^verbatim>\<open>
  async function fetchPosts() {
    try {
      const data = (await get("https://jsonplaceholder.typicode.com/posts")) as RawDataBlogPost[];
      const blogPosts: BlogPost[] = data.map(...);
      setFetchedPosts(blogPosts);
    } catch (error) {
      if (error instanceof Error) { setError(error.message); }
    }
    setIsFetching(false);
  }
  \<close>
\<close>

definition fetchPosts ::
  "(string \<Rightarrow> thrown + js_value) \<Rightarrow> setter_call list \<Rightarrow> setter_call list" where
  "fetchPosts http_get log =
     (let (tried, log1) =
            (case http_get posts_url of
               Inl e \<Rightarrow> (Inl e, log)
             | Inr data \<Rightarrow>
                 (case data_map data log of
                    (Inl e, l) \<Rightarrow> (Inl e, l)
                  | (Inr blogPosts, l) \<Rightarrow> (Inr (), setFetchedPosts blogPosts l)));
          log2 =
            (case tried of
               Inr u \<Rightarrow> log1
             | Inl (ErrorInstance message) \<Rightarrow> setError message log1
             | Inl (NonError v) \<Rightarrow> log1)
      in setIsFetching False log2)"

text \<open>
  Lines 19-43, the effect, run once after the first render:
  \<^verbatim>\<open>useEffect(() => { setIsFetching(true); async function fetchPosts() {...} fetchPosts(); }, [])\<close>
\<close>

definition useEffect_callback ::
  "(string \<Rightarrow> thrown + js_value) \<Rightarrow> setter_call list \<Rightarrow> setter_call list" where
  "useEffect_callback http_get log = fetchPosts http_get (setIsFetching True log)"

text \<open>The states the component passes through: the state after each prefix of the calls.\<close>

definition reachable_states :: "setter_call list \<Rightarrow> app_state list" where
  "reachable_states calls = map (\<lambda>n. state_after (take n calls)) [0 ..< Suc (length calls)]"

section \<open>Rendering\<close>

text \<open>
  What the components return, up to styling: \<^verbatim>\<open>ErrorMessage\<close> an \<^verbatim>\<open><aside id="error">\<close> with
  the text, \<^verbatim>\<open>BlogPosts\<close> a \<^verbatim>\<open><div>\<close> whose \<^verbatim>\<open><ul>\<close> has one \<^verbatim>\<open><li>\<close> per post, \<^verbatim>\<open>App\<close> either the
  paragraph \<^verbatim>\<open>Loading...\<close> or \<^verbatim>\<open><main>\<close> around \<^verbatim>\<open>content\<close>, which may be \<^verbatim>\<open>undefined\<close>. An
  \<^verbatim>\<open><li>\<close> is the element as the component builds it: its key and the children given to
  \<^verbatim>\<open><h2>\<close> and \<^verbatim>\<open><p>\<close>.
\<close>

record li =
  li_key :: js_value
  li_h2 :: js_value
  li_p :: js_value

datatype element = Aside_error string | Div_posts "li list"

datatype rendering = P_Loading | Main_content "element option"

definition ErrorMessage :: "string \<Rightarrow> element" where
  "ErrorMessage text = Aside_error text"

definition BlogPosts :: "BlogPost list \<Rightarrow> element" where
  "BlogPosts posts =
     Div_posts (map (\<lambda>post. \<lparr>li_key = post_id post, li_h2 = post_title post, li_p = post_text post\<rparr>) posts)"

text \<open>
  Lines 45-64. \<^verbatim>\<open>if (error)\<close> tests a \<^verbatim>\<open>string | undefined\<close>: \<^verbatim>\<open>undefined\<close> and the empty string
  are falsy. \<^verbatim>\<open>if (fetchedPosts)\<close> tests an array or \<^verbatim>\<open>undefined\<close>: every array is truthy,
  the empty one too.
\<close>

definition App :: "app_state \<Rightarrow> rendering" where
  "App s =
     (let content0 = None;
          content1 =
            (case error s of
               Some e \<Rightarrow> if e \<noteq> [] then Some (ErrorMessage e) else content0
             | None \<Rightarrow> content0);
          content2 =
            (case fetchedPosts s of
               Some posts \<Rightarrow> Some (BlogPosts posts)
             | None \<Rightarrow> content1)
      in if isFetching s then P_Loading else Main_content content2)"

section \<open>Shared lemmas\<close>

lemma get_property_not_nullish: "\<not> nullish v \<Longrightarrow> get_property v name = Inr (property v name)"
  by (cases v) (simp_all add: get_property_def)

lemma get_property_nullish: "nullish v \<Longrightarrow> \<exists>m. get_property v name = Inl (ErrorInstance m)"
  by (cases v) (simp_all add: get_property_def)

lemma mapPost_not_nullish: "\<not> nullish v \<Longrightarrow> mapPost v s = (Inr (toBlogPost v), s)"
  by (simp add: mapPost_def toBlogPost_def get_property_not_nullish)

lemma mapPost_nullish: "nullish v \<Longrightarrow> \<exists>m. mapPost v s = (Inl (ErrorInstance m), s)"
proof -
  assume "nullish v"
  then obtain m where "get_property v ''userId'' = Inl (ErrorInstance m)"
    using get_property_nullish by blast
  then show ?thesis
    by (simp add: mapPost_def)
qed

lemma transformer_not_nullish:
  "\<forall>x\<in>set data. \<not> nullish x \<Longrightarrow> transformer data s = (Inr (map toBlogPost data), s)"
  unfolding transformer_def
  by (induction data) (simp_all add: mapPost_not_nullish)

lemma transformer_nullish:
  "\<exists>x\<in>set data. nullish x \<Longrightarrow> \<exists>m. transformer data s = (Inl (ErrorInstance m), s)"
  unfolding transformer_def
proof (induction data)
  case Nil
  then show ?case by simp
next
  case (Cons a data)
  show ?case
  proof (cases "nullish a")
    case True
    then have "\<exists>m. mapPost a s = (Inl (ErrorInstance m), s)"
      by (rule mapPost_nullish)
    then obtain m where "mapPost a s = (Inl (ErrorInstance m), s)" ..
    then have "array_map mapPost (a # data) s = (Inl (ErrorInstance m), s)"
      by simp
    then show ?thesis ..
  next
    case False
    with Cons.prems have "\<exists>x\<in>set data. nullish x"
      by simp
    then have "\<exists>m. array_map mapPost data s = (Inl (ErrorInstance m), s)"
      by (rule Cons.IH)
    then obtain m where "array_map mapPost data s = (Inl (ErrorInstance m), s)" ..
    moreover from False have "mapPost a s = (Inr (toBlogPost a), s)"
      by (rule mapPost_not_nullish)
    ultimately have "array_map mapPost (a # data) s = (Inl (ErrorInstance m), s)"
      by simp
    then show ?thesis ..
  qed
qed

text \<open>The callback and the loop do not depend on the store and leave it as it was.\<close>

lemma mapPost_store: "\<exists>r. \<forall>s :: 's. mapPost v s = (r, s)"
proof (cases "nullish v")
  case True
  then obtain m where "get_property v ''userId'' = Inl (ErrorInstance m)"
    using get_property_nullish by blast
  then have "\<forall>s :: 's. mapPost v s = (Inl (ErrorInstance m), s)"
    by (simp add: mapPost_def)
  then show ?thesis ..
next
  case False
  then have "\<forall>s :: 's. mapPost v s = (Inr (toBlogPost v), s)"
    by (simp add: mapPost_not_nullish)
  then show ?thesis ..
qed

lemma transformer_store: "\<exists>r. \<forall>s :: 's. transformer data s = (r, s)"
  unfolding transformer_def
proof (induction data)
  case Nil
  have "\<forall>s :: 's. array_map mapPost [] s = (Inr [], s)"
    by simp
  then show ?case ..
next
  case (Cons a data)
  obtain ra where head: "\<And>s :: 's. mapPost a s = (ra, s)"
    using mapPost_store by blast
  from Cons.IH obtain rd where tail: "\<And>s :: 's. array_map mapPost data s = (rd, s)"
    by blast
  show ?case
  proof (cases ra)
    case (Inl e)
    with head have "\<forall>s :: 's. array_map mapPost (a # data) s = (Inl e, s)"
      by simp
    then show ?thesis ..
  next
    case y: (Inr y)
    show ?thesis
    proof (cases rd)
      case (Inl e)
      with head y tail have "\<forall>s :: 's. array_map mapPost (a # data) s = (Inl e, s)"
        by simp
      then show ?thesis ..
    next
      case (Inr ys)
      with head y tail have "\<forall>s :: 's. array_map mapPost (a # data) s = (Inr (y # ys), s)"
        by simp
      then show ?thesis ..
    qed
  qed
qed

lemma data_map_store: "\<exists>r. \<forall>s :: 's. data_map data s = (r, s)"
proof (cases data)
  case (JS_array elements)
  obtain r where "\<And>s :: 's. transformer elements s = (r, s)"
    using transformer_store by blast
  with JS_array have "\<forall>s :: 's. data_map data s = (r, s)"
    by (simp add: data_map_def)
  then show ?thesis ..
next
  case JS_undefined
  then have "\<forall>s :: 's. data_map data s = (Inl (ErrorInstance (cannot_read ''undefined'' ''map'')), s)"
    by (simp add: data_map_def get_property_def)
  then show ?thesis ..
next
  case JS_null
  then have "\<forall>s :: 's. data_map data s = (Inl (ErrorInstance (cannot_read ''null'' ''map'')), s)"
    by (simp add: data_map_def get_property_def)
  then show ?thesis ..
next
  case (JS_bool b)
  then have "\<forall>s :: 's. data_map data s = (Inl (ErrorInstance ''data.map is not a function''), s)"
    by (simp add: data_map_def get_property_def)
  then show ?thesis ..
next
  case (JS_number n)
  then have "\<forall>s :: 's. data_map data s = (Inl (ErrorInstance ''data.map is not a function''), s)"
    by (simp add: data_map_def get_property_def)
  then show ?thesis ..
next
  case (JS_string t)
  then have "\<forall>s :: 's. data_map data s = (Inl (ErrorInstance ''data.map is not a function''), s)"
    by (simp add: data_map_def get_property_def)
  then show ?thesis ..
next
  case (JS_object props)
  then have "\<forall>s :: 's. data_map data s = (Inl (ErrorInstance ''data.map is not a function''), s)"
    by (simp add: data_map_def get_property_def)
  then show ?thesis ..
qed

lemma data_map_fst: "fst (data_map data (s' :: 's)) = fst (data_map data (s :: 's))"
proof -
  obtain r where "\<And>s :: 's. data_map data s = (r, s)"
    using data_map_store by blast
  then show ?thesis by simp
qed

lemma transformer_fst: "fst (transformer data (s' :: 's)) = fst (transformer data (s :: 's))"
proof -
  obtain r where "\<And>s :: 's. transformer data s = (r, s)"
    using transformer_store by blast
  then show ?thesis by simp
qed

lemma transformer_snd: "snd (transformer data (s :: 's)) = s"
proof -
  obtain r where "\<And>s :: 's. transformer data s = (r, s)"
    using transformer_store by blast
  then show ?thesis by simp
qed

text \<open>\<^verbatim>\<open>data.map(...)\<close> returns an array or throws an \<^verbatim>\<open>Error\<close>; the store is as it was.\<close>

lemma data_map_cases:
  obtains (mapped) posts where "data_map data s = (Inr posts, s)"
  | (threw) m where "data_map data s = (Inl (ErrorInstance m), s)"
proof (cases data)
  case (JS_array elements)
  show ?thesis
  proof (cases "\<exists>x\<in>set elements. nullish x")
    case True
    then have "\<exists>m. transformer elements s = (Inl (ErrorInstance m), s)"
      by (rule transformer_nullish)
    then obtain m where "transformer elements s = (Inl (ErrorInstance m), s)" ..
    with JS_array have "data_map data s = (Inl (ErrorInstance m), s)"
      by (simp add: data_map_def)
    then show ?thesis by (rule threw)
  next
    case False
    then have "transformer elements s = (Inr (map toBlogPost elements), s)"
      by (simp add: transformer_not_nullish)
    with JS_array have "data_map data s = (Inr (map toBlogPost elements), s)"
      by (simp add: data_map_def)
    then show ?thesis by (rule mapped)
  qed
next
  case JS_undefined
  then have "data_map data s = (Inl (ErrorInstance (cannot_read ''undefined'' ''map'')), s)"
    by (simp add: data_map_def get_property_def)
  then show ?thesis by (rule threw)
next
  case JS_null
  then have "data_map data s = (Inl (ErrorInstance (cannot_read ''null'' ''map'')), s)"
    by (simp add: data_map_def get_property_def)
  then show ?thesis by (rule threw)
next
  case (JS_bool b)
  then have "data_map data s = (Inl (ErrorInstance ''data.map is not a function''), s)"
    by (simp add: data_map_def get_property_def)
  then show ?thesis by (rule threw)
next
  case (JS_number n)
  then have "data_map data s = (Inl (ErrorInstance ''data.map is not a function''), s)"
    by (simp add: data_map_def get_property_def)
  then show ?thesis by (rule threw)
next
  case (JS_string t)
  then have "data_map data s = (Inl (ErrorInstance ''data.map is not a function''), s)"
    by (simp add: data_map_def get_property_def)
  then show ?thesis by (rule threw)
next
  case (JS_object props)
  then have "data_map data s = (Inl (ErrorInstance ''data.map is not a function''), s)"
    by (simp add: data_map_def get_property_def)
  then show ?thesis by (rule threw)
qed

lemma fetchPosts_mapped:
  "http_get posts_url = Inr data \<Longrightarrow> data_map data log = (Inr posts, log) \<Longrightarrow>
   fetchPosts http_get log = log @ [Call_setFetchedPosts posts, Call_setIsFetching False]"
  by (simp add: fetchPosts_def setFetchedPosts_def setIsFetching_def)

lemma fetchPosts_map_threw:
  "http_get posts_url = Inr data \<Longrightarrow> data_map data log = (Inl (ErrorInstance m), log) \<Longrightarrow>
   fetchPosts http_get log = log @ [Call_setError m, Call_setIsFetching False]"
  by (simp add: fetchPosts_def setError_def setIsFetching_def)

lemma fetchPosts_rejected_Error:
  "http_get posts_url = Inl (ErrorInstance m) \<Longrightarrow>
   fetchPosts http_get log = log @ [Call_setError m, Call_setIsFetching False]"
  by (simp add: fetchPosts_def setError_def setIsFetching_def)

lemma fetchPosts_rejected_other:
  "http_get posts_url = Inl (NonError v) \<Longrightarrow>
   fetchPosts http_get log = log @ [Call_setIsFetching False]"
  by (simp add: fetchPosts_def setIsFetching_def)

text \<open>An awaited promise settles in one of three ways the \<^verbatim>\<open>catch\<close> clause tells apart.\<close>

lemma outcome_cases:
  obtains (resolved) data where "(r :: thrown + 'a) = Inr data"
  | (rejected_Error) m where "r = Inl (ErrorInstance m)"
  | (rejected_other) v where "r = Inl (NonError v)"
proof (cases r)
  case (Inl e)
  then show ?thesis by (cases e) (auto intro: that)
next
  case (Inr d)
  then show ?thesis by (auto intro: that)
qed

text \<open>The calls of \<open>fetchPosts\<close>, in each of the ways it can run.\<close>

lemma fetchPosts_cases:
  obtains (stored) data posts where "http_get posts_url = Inr data"
      and "data_map data log = (Inr posts, log)"
      and "fetchPosts http_get log = log @ [Call_setFetchedPosts posts, Call_setIsFetching False]"
  | (map_threw) data m where "http_get posts_url = Inr data"
      and "data_map data log = (Inl (ErrorInstance m), log)"
      and "fetchPosts http_get log = log @ [Call_setError m, Call_setIsFetching False]"
  | (rejected_Error) m where "http_get posts_url = Inl (ErrorInstance m)"
      and "fetchPosts http_get log = log @ [Call_setError m, Call_setIsFetching False]"
  | (rejected_other) v where "http_get posts_url = Inl (NonError v)"
      and "fetchPosts http_get log = log @ [Call_setIsFetching False]"
proof (cases "http_get posts_url" rule: outcome_cases)
  case (resolved data)
  show ?thesis
  proof (cases data rule: data_map_cases [where s = log])
    case (mapped posts)
    show ?thesis
      by (rule stored [OF resolved mapped fetchPosts_mapped [where http_get = http_get, OF resolved mapped]])
  next
    case (threw m)
    show ?thesis
      by (rule map_threw [OF resolved threw fetchPosts_map_threw [where http_get = http_get, OF resolved threw]])
  qed
next
  case (rejected_Error m)
  show ?thesis
    by (rule that(3) [OF rejected_Error fetchPosts_rejected_Error [where http_get = http_get, OF rejected_Error]])
next
  case (rejected_other v)
  show ?thesis
    by (rule that(4) [OF rejected_other fetchPosts_rejected_other [where http_get = http_get, OF rejected_other]])
qed

lemma useEffect_callback_eq:
  "useEffect_callback http_get log = fetchPosts http_get (log @ [Call_setIsFetching True])"
  by (simp add: useEffect_callback_def setIsFetching_def)

lemma data_map_array_not_nullish:
  "\<forall>x\<in>set elements. \<not> nullish x \<Longrightarrow>
   data_map (JS_array elements) s = (Inr (map toBlogPost elements), s)"
  by (simp add: data_map_def transformer_not_nullish)


section \<open>The transformer's contract\<close>




text \<open>
  Claim C9, as the code has it. The transformer is deterministic and keeps no hidden state:
  whatever the store it runs in, it leaves the store as it was, and run again on the same
  input, in the store the first run left or in any other, it has the same outcome. It has
  one error path: it throws an \<^verbatim>\<open>Error\<close> when an element of the input is \<^verbatim>\<open>null\<close> or
  \<^verbatim>\<open>undefined\<close>, and only then; on every other input it returns an array of the input's
  length.
\<close>

theorem transformer_deterministic:
  "snd (transformer data (s :: 's)) = s \<and>
   fst (transformer data (s' :: 's)) = fst (transformer data s) \<and>
   fst (transformer data (snd (transformer data s))) = fst (transformer data s) \<and>
   (if \<exists>x\<in>set data. nullish x
    then \<exists>m. fst (transformer data s) = Inl (ErrorInstance m)
    else \<exists>out. fst (transformer data s) = Inr out \<and> length out = length data)"
proof (intro conjI)
  show "snd (transformer data s) = s"
    by (rule transformer_snd)
  show "fst (transformer data s') = fst (transformer data s)"
    by (rule transformer_fst)
  show "fst (transformer data (snd (transformer data s))) = fst (transformer data s)"
    by (rule transformer_fst)
  show "if \<exists>x\<in>set data. nullish x
    then \<exists>m. fst (transformer data s) = Inl (ErrorInstance m)
    else \<exists>out. fst (transformer data s) = Inr out \<and> length out = length data"
  proof (cases "\<exists>x\<in>set data. nullish x")
    case True
    then have "\<exists>m. transformer data s = (Inl (ErrorInstance m), s)"
      by (rule transformer_nullish)
    then obtain m where "transformer data s = (Inl (ErrorInstance m), s)" ..
    then have "fst (transformer data s) = Inl (ErrorInstance m)"
      by simp
    then have "\<exists>m. fst (transformer data s) = Inl (ErrorInstance m)" ..
    with True show ?thesis
      by simp
  next
    case False
    then have "transformer data s = (Inr (map toBlogPost data), s)"
      by (simp add: transformer_not_nullish)
    then have "fst (transformer data s) = Inr (map toBlogPost data) \<and>
        length (map toBlogPost data) = length data"
      by simp
    then have "\<exists>out. fst (transformer data s) = Inr out \<and> length out = length data" ..
    with False show ?thesis
      by simp
  qed
qed

theorem transformer_deterministic_witness:
  "(\<exists>out. fst (transformer
       [JS_object [(''id'', JS_number 1), (''userId'', JS_number 7), (''title'', JS_string ''T''),
                   (''body'', JS_string ''B'')], JS_number 5, JS_array []] [Call_setIsFetching True]) = Inr out \<and>
     length out = 3) \<and>
   snd (transformer
       [JS_object [(''id'', JS_number 1), (''userId'', JS_number 7), (''title'', JS_string ''T''),
                   (''body'', JS_string ''B'')], JS_number 5, JS_array []] [Call_setIsFetching True]) =
     [Call_setIsFetching True]"
proof -
  let ?data = "[JS_object [(''id'', JS_number 1), (''userId'', JS_number 7), (''title'', JS_string ''T''),
                   (''body'', JS_string ''B'')], JS_number 5, JS_array []]"
  note run = transformer_deterministic [of ?data "[Call_setIsFetching True]" "[]"]
  have ok: "\<not> (\<exists>x\<in>set ?data. nullish x)"
    by simp
  from run have "if \<exists>x\<in>set ?data. nullish x
    then \<exists>m. fst (transformer ?data [Call_setIsFetching True]) = Inl (ErrorInstance m)
    else \<exists>out. fst (transformer ?data [Call_setIsFetching True]) = Inr out \<and> length out = length ?data"
    by (elim conjE)
  with ok have "\<exists>out. fst (transformer ?data [Call_setIsFetching True]) = Inr out \<and> length out = length ?data"
    by (simp only: if_False)
  then have total: "\<exists>out. fst (transformer ?data [Call_setIsFetching True]) = Inr out \<and> length out = 3"
    by (simp add: numeral_3_eq_3)
  from run have store: "snd (transformer ?data [Call_setIsFetching True]) = [Call_setIsFetching True]"
    by (elim conjE)
  from total store show ?thesis
    by (rule conjI)
qed

text \<open>
  An input with an error path: on the array of a record and \<^verbatim>\<open>null\<close>, which a JSON body can
  hold, the read of \<^verbatim>\<open>rawPost.userId\<close> throws a \<^verbatim>\<open>TypeError\<close>.
\<close>

theorem transformer_throws_counterexample:
  "fst (transformer
          [JS_object [(''id'', JS_number 1), (''userId'', JS_number 7), (''title'', JS_string ''T''),
                      (''body'', JS_string ''B'')], JS_null] ()) =
     Inl (ErrorInstance (cannot_read ''null'' ''userId''))"
  by (simp add: transformer_def mapPost_def get_property_def property_def)

section \<open>The HTTP helper's contract\<close>

text \<open>
  Claim C3. When \<^verbatim>\<open>fetch\<close> resolves with a response whose \<open>ok\<close> flag is false, \<open>get\<close> rejects
  with an \<^verbatim>\<open>Error\<close> whose message is \<^verbatim>\<open>Failed to fetch data.\<close>, it does not call
  \<^verbatim>\<open>response.json()\<close>, and neither the status code nor the body changes the outcome.
\<close>

theorem get_rejects_on_failure_status:
  "fetch url = Inr response \<Longrightarrow> \<not> ok response \<Longrightarrow>
   snd (get fetch url) = Inl (ErrorInstance ''Failed to fetch data.'') \<and>
   Op_json \<notin> set (fst (get fetch url)) \<and>
   get (\<lambda>u. Inr (response\<lparr>status := st, json := j\<rparr>)) url = get fetch url"
  by (simp add: get_def)

theorem get_rejects_on_failure_status_witness:
  "get (\<lambda>u. Inr \<lparr>ok = False, status = 404, json = Inr [1::nat, 2]\<rparr>) ''u'' =
     ([Op_fetch ''u''], Inl (ErrorInstance ''Failed to fetch data.'')) \<and>
   get (\<lambda>u. Inr \<lparr>ok = False, status = 500, json = Inl (ErrorInstance ''Unexpected token'')\<rparr>) ''u'' =
     ([Op_fetch ''u''], Inl (ErrorInstance ''Failed to fetch data.''))"
  using get_rejects_on_failure_status
    [where fetch = "\<lambda>u. Inr \<lparr>ok = False, status = 404, json = Inr [1::nat, 2]\<rparr>" and url = "''u''"
       and response = "\<lparr>ok = False, status = 404, json = Inr [1::nat, 2]\<rparr>" and st = 500
       and j = "Inl (ErrorInstance ''Unexpected token'')"]
  by (simp add: get_def)

text \<open>
  Claim C8. When \<^verbatim>\<open>fetch\<close> resolves with a response whose \<open>ok\<close> flag is true and whose body
  decodes to an array, \<open>get\<close> resolves with that array: the same elements in the same
  order.
\<close>

theorem get_resolves_with_decoded_array:
  "fetch url = Inr response \<Longrightarrow> ok response \<Longrightarrow> json response = Inr (xs :: 'a list) \<Longrightarrow>
   snd (get fetch url) = Inr xs"
  by (simp add: get_def)

theorem get_resolves_with_decoded_array_witness:
  "snd (get (\<lambda>u. Inr \<lparr>ok = True, status = 200, json = Inr [3::nat, 1, 3, 2]\<rparr>) ''u'') = Inr [3, 1, 3, 2]"
  using get_resolves_with_decoded_array
    [of "\<lambda>u. Inr \<lparr>ok = True, status = 200, json = Inr [3::nat, 1, 3, 2]\<rparr>" "''u''"
        "\<lparr>ok = True, status = 200, json = Inr [3::nat, 1, 3, 2]\<rparr>" "[3, 1, 3, 2]"]
  by simp

section \<open>Render selection\<close>

text \<open>
  Claim C6. In every state whose \<open>isFetching\<close> flag is true, \<^verbatim>\<open>App\<close> returns the loading
  paragraph, whatever the error message and the fetched posts are.
\<close>

theorem App_loading_first:
  "isFetching s \<Longrightarrow> App s = P_Loading"
  by (simp add: App_def)

theorem App_loading_first_witness:
  "App \<lparr>fetchedPosts = Some [\<lparr>post_id = JS_number 7, post_title = JS_string ''T'', post_text = JS_string ''B''\<rparr>],
        isFetching = True, error = Some ''Failed to fetch data.''\<rparr> = P_Loading"
  using App_loading_first
    [of "\<lparr>fetchedPosts = Some [\<lparr>post_id = JS_number 7, post_title = JS_string ''T'', post_text = JS_string ''B''\<rparr>],
          isFetching = True, error = Some ''Failed to fetch data.''\<rparr>"]
  by simp

text \<open>
  Claim C2. In every state whose \<open>isFetching\<close> flag is false and in which both an error
  message and fetched posts are set, \<^verbatim>\<open>App\<close> returns the posts view and not the error view:
  the test of \<open>fetchedPosts\<close> follows the test of \<open>error\<close> and overwrites \<open>content\<close>.
\<close>

theorem App_loaded_overrides_error:
  "\<not> isFetching s \<Longrightarrow> error s = Some e \<Longrightarrow> fetchedPosts s = Some posts \<Longrightarrow>
   App s = Main_content (Some (BlogPosts posts)) \<and> App s \<noteq> Main_content (Some (ErrorMessage e))"
  by (simp add: App_def BlogPosts_def ErrorMessage_def)

theorem App_loaded_overrides_error_witness:
  "App \<lparr>fetchedPosts = Some [\<lparr>post_id = JS_number 7, post_title = JS_string ''T'', post_text = JS_string ''B''\<rparr>],
        isFetching = False, error = Some ''Failed to fetch data.''\<rparr> =
   Main_content (Some (Div_posts [\<lparr>li_key = JS_number 7, li_h2 = JS_string ''T'', li_p = JS_string ''B''\<rparr>]))"
  using App_loaded_overrides_error
    [of "\<lparr>fetchedPosts = Some [\<lparr>post_id = JS_number 7, post_title = JS_string ''T'', post_text = JS_string ''B''\<rparr>],
          isFetching = False, error = Some ''Failed to fetch data.''\<rparr>"
        "''Failed to fetch data.''" "[\<lparr>post_id = JS_number 7, post_title = JS_string ''T'', post_text = JS_string ''B''\<rparr>]"]
  by (simp add: BlogPosts_def)

section \<open>The fetch and its completion\<close>

text \<open>
  Claim C4. When the awaited call rejects with a value that is not an \<^verbatim>\<open>Error\<close> instance,
  \<open>fetchPosts\<close> calls neither \<^verbatim>\<open>setError\<close> nor \<^verbatim>\<open>setFetchedPosts\<close> and still calls
  \<^verbatim>\<open>setIsFetching(false)\<close>: the effect's calls are \<^verbatim>\<open>setIsFetching(true)\<close> and
  \<^verbatim>\<open>setIsFetching(false)\<close>, the flag is true before the last call and false after it,
  \<open>error\<close> and \<open>fetchedPosts\<close> stay unset, and the render that follows is \<^verbatim>\<open><main>\<close> with no
  content.
\<close>

theorem unrecognized_failure_blank:
  "http_get posts_url = Inl (NonError v) \<Longrightarrow>
   fetchPosts http_get log = log @ [Call_setIsFetching False] \<and>
   useEffect_callback http_get [] = [Call_setIsFetching True, Call_setIsFetching False] \<and>
   isFetching (state_after (butlast (useEffect_callback http_get []))) \<and>
   error (state_after (useEffect_callback http_get [])) = None \<and>
   fetchedPosts (state_after (useEffect_callback http_get [])) = None \<and>
   \<not> isFetching (state_after (useEffect_callback http_get [])) \<and>
   App (state_after (useEffect_callback http_get [])) = Main_content None"
proof -
  assume rejected: "http_get posts_url = Inl (NonError v)"
  then have calls: "\<And>log. fetchPosts http_get log = log @ [Call_setIsFetching False]"
    by (rule fetchPosts_rejected_other)
  then have effect: "useEffect_callback http_get [] = [Call_setIsFetching True, Call_setIsFetching False]"
    by (simp add: useEffect_callback_eq)
  show ?thesis
    unfolding effect
    by (simp add: calls state_after_def initial_state_def App_def)
qed

theorem unrecognized_failure_blank_witness:
  "useEffect_callback (\<lambda>url. Inl (NonError ''boom'')) [] =
     [Call_setIsFetching True, Call_setIsFetching False] \<and>
   App (state_after (useEffect_callback (\<lambda>url. Inl (NonError ''boom'')) [])) = Main_content None"
proof -
  have rejected: "(\<lambda>url. Inl (NonError ''boom'') :: thrown + js_value) posts_url = Inl (NonError ''boom'')"
    by simp
  note run = unrecognized_failure_blank [of "\<lambda>url. Inl (NonError ''boom'')" "''boom''" "[]", OF rejected]
  from run have calls: "useEffect_callback (\<lambda>url. Inl (NonError ''boom'')) [] =
     [Call_setIsFetching True, Call_setIsFetching False]"
    by (elim conjE)
  from run have view: "App (state_after (useEffect_callback (\<lambda>url. Inl (NonError ''boom'')) [])) =
     Main_content None"
    by (elim conjE)
  from calls view show ?thesis
    by (rule conjI)
qed

text \<open>
  Claim C5. However the awaited call settles, the last setter \<open>fetchPosts\<close> calls is
  \<^verbatim>\<open>setIsFetching(false)\<close>: the posts (when the call resolves and \<^verbatim>\<open>data.map\<close> returns) or the
  message (when the call rejects with an \<^verbatim>\<open>Error\<close>, or \<^verbatim>\<open>data.map\<close> throws one) are stored by
  the call before it, and nothing is stored when the call rejects with another value. For
  an array without \<^verbatim>\<open>null\<close> elements the posts stored are the mapped elements. So in the
  state just before the last call the flag is still true and \<open>fetchedPosts\<close> and \<open>error\<close>
  already have their final values.
\<close>

theorem loading_flag_cleared_last:
  "last (fetchPosts http_get log) = Call_setIsFetching False \<and>
   (case http_get posts_url of
      Inr data \<Rightarrow>
        (case fst (data_map data log) of
           Inr posts \<Rightarrow> butlast (fetchPosts http_get log) = log @ [Call_setFetchedPosts posts]
         | Inl (ErrorInstance m) \<Rightarrow> butlast (fetchPosts http_get log) = log @ [Call_setError m]
         | Inl (NonError v) \<Rightarrow> butlast (fetchPosts http_get log) = log)
    | Inl (ErrorInstance m) \<Rightarrow> butlast (fetchPosts http_get log) = log @ [Call_setError m]
    | Inl (NonError v) \<Rightarrow> butlast (fetchPosts http_get log) = log) \<and>
   (\<forall>elements. http_get posts_url = Inr (JS_array elements) \<and> (\<forall>x\<in>set elements. \<not> nullish x) \<longrightarrow>
      butlast (fetchPosts http_get log) = log @ [Call_setFetchedPosts (map toBlogPost elements)]) \<and>
   (let calls = useEffect_callback http_get [] in
      isFetching (state_after (butlast calls)) \<and> \<not> isFetching (state_after calls) \<and>
      fetchedPosts (state_after (butlast calls)) = fetchedPosts (state_after calls) \<and>
      error (state_after (butlast calls)) = error (state_after calls))"
proof (intro conjI)
  show "last (fetchPosts http_get log) = Call_setIsFetching False"
    by (cases http_get log rule: fetchPosts_cases) simp_all
  show "case http_get posts_url of
      Inr data \<Rightarrow>
        (case fst (data_map data log) of
           Inr posts \<Rightarrow> butlast (fetchPosts http_get log) = log @ [Call_setFetchedPosts posts]
         | Inl (ErrorInstance m) \<Rightarrow> butlast (fetchPosts http_get log) = log @ [Call_setError m]
         | Inl (NonError v) \<Rightarrow> butlast (fetchPosts http_get log) = log)
    | Inl (ErrorInstance m) \<Rightarrow> butlast (fetchPosts http_get log) = log @ [Call_setError m]
    | Inl (NonError v) \<Rightarrow> butlast (fetchPosts http_get log) = log"
    by (cases http_get log rule: fetchPosts_cases) (simp_all add: butlast_append)
  show "\<forall>elements. http_get posts_url = Inr (JS_array elements) \<and> (\<forall>x\<in>set elements. \<not> nullish x) \<longrightarrow>
      butlast (fetchPosts http_get log) = log @ [Call_setFetchedPosts (map toBlogPost elements)]"
  proof (intro allI impI, elim conjE)
    fix elements
    assume resolved: "http_get posts_url = Inr (JS_array elements)"
      and ok: "\<forall>x\<in>set elements. \<not> nullish x"
    from ok have "data_map (JS_array elements) log = (Inr (map toBlogPost elements), log)"
      by (rule data_map_array_not_nullish)
    with resolved have "fetchPosts http_get log =
        log @ [Call_setFetchedPosts (map toBlogPost elements), Call_setIsFetching False]"
      by (rule fetchPosts_mapped [where http_get = http_get])
    then show "butlast (fetchPosts http_get log) = log @ [Call_setFetchedPosts (map toBlogPost elements)]"
      by (simp add: butlast_append)
  qed
  show "let calls = useEffect_callback http_get [] in
      isFetching (state_after (butlast calls)) \<and> \<not> isFetching (state_after calls) \<and>
      fetchedPosts (state_after (butlast calls)) = fetchedPosts (state_after calls) \<and>
      error (state_after (butlast calls)) = error (state_after calls)"
    unfolding useEffect_callback_eq
    by (cases http_get "[] @ [Call_setIsFetching True]" rule: fetchPosts_cases)
       (simp_all add: state_after_def initial_state_def)
qed

theorem loading_flag_cleared_last_witness:
  "fetchPosts
     (\<lambda>url. Inr (JS_array [JS_object [(''id'', JS_number 1), (''userId'', JS_number 7),
        (''title'', JS_string ''T''), (''body'', JS_string ''B'')]]))
     [Call_setIsFetching True] =
     [Call_setIsFetching True,
      Call_setFetchedPosts [\<lparr>post_id = JS_number 7, post_title = JS_string ''T'', post_text = JS_string ''B''\<rparr>],
      Call_setIsFetching False]"
proof -
  let ?elements = "[JS_object [(''id'', JS_number 1), (''userId'', JS_number 7),
        (''title'', JS_string ''T''), (''body'', JS_string ''B'')]]"
  let ?g = "\<lambda>url :: string. Inr (JS_array ?elements) :: thrown + js_value"
  let ?calls = "fetchPosts ?g [Call_setIsFetching True]"
  note run = loading_flag_cleared_last [of ?g "[Call_setIsFetching True]"]
  from run have l: "last ?calls = Call_setIsFetching False"
    by (elim conjE)
  from run have "\<forall>elements. ?g posts_url = Inr (JS_array elements) \<and> (\<forall>x\<in>set elements. \<not> nullish x) \<longrightarrow>
      butlast ?calls = [Call_setIsFetching True] @ [Call_setFetchedPosts (map toBlogPost elements)]"
    by (elim conjE)
  then have "?g posts_url = Inr (JS_array ?elements) \<and> (\<forall>x\<in>set ?elements. \<not> nullish x) \<longrightarrow>
      butlast ?calls = [Call_setIsFetching True] @ [Call_setFetchedPosts (map toBlogPost ?elements)]"
    by (rule spec)
  then have b: "butlast ?calls = [Call_setIsFetching True,
      Call_setFetchedPosts [\<lparr>post_id = JS_number 7, post_title = JS_string ''T'', post_text = JS_string ''B''\<rparr>]]"
    by (simp add: toBlogPost_def property_def)
  have "?calls \<noteq> []"
    using b by auto
  then have "?calls = butlast ?calls @ [last ?calls]"
    by simp
  then show ?thesis
    using l b by simp
qed

text \<open>
  Claim C7. When the awaited call resolves with the empty array, the render after the effect
  has completed is \<^verbatim>\<open><main>\<close> around the posts container, whose list has no item; it is not
  \<^verbatim>\<open><main>\<close> with no content.
\<close>

theorem empty_result_renders_empty_list:
  "http_get posts_url = Inr (JS_array []) \<Longrightarrow>
   App (state_after (useEffect_callback http_get [])) = Main_content (Some (BlogPosts [])) \<and>
   BlogPosts [] = Div_posts [] \<and>
   App (state_after (useEffect_callback http_get [])) \<noteq> Main_content None"
proof -
  assume resolved: "http_get posts_url = Inr (JS_array [])"
  have "data_map (JS_array []) [Call_setIsFetching True] = (Inr [], [Call_setIsFetching True])"
    by (simp add: data_map_def transformer_def)
  with resolved have "fetchPosts http_get [Call_setIsFetching True] =
      [Call_setIsFetching True] @ [Call_setFetchedPosts [], Call_setIsFetching False]"
    by (rule fetchPosts_mapped [where http_get = http_get])
  then show ?thesis
    by (simp add: useEffect_callback_eq state_after_def initial_state_def App_def BlogPosts_def)
qed

theorem empty_result_renders_empty_list_witness:
  "App (state_after (useEffect_callback
      (\<lambda>url. snd (get (\<lambda>u. Inr \<lparr>ok = True, status = 200, json = Inr (JS_array [])\<rparr>) url)) [])) =
   Main_content (Some (Div_posts []))"
proof -
  have "snd (get (\<lambda>u. Inr \<lparr>ok = True, status = 200, json = Inr (JS_array [])\<rparr>) posts_url) =
      (Inr (JS_array []) :: thrown + js_value)"
    by (simp add: get_def)
  from empty_result_renders_empty_list
    [of "\<lambda>url. snd (get (\<lambda>u. Inr \<lparr>ok = True, status = 200, json = Inr (JS_array [])\<rparr>) url)", OF this]
  show ?thesis
    by simp
qed

text \<open>
  Claim C10. In every state the component passes through, from the initial state through
  the calls of the one effect, the error message and the fetched posts are never both set;
  so no state that is rendered has the posts view replace an error view.
\<close>

theorem error_and_posts_never_both:
  "\<forall>s \<in> set (reachable_states (useEffect_callback http_get [])).
     error s = None \<or> fetchedPosts s = None"
  unfolding useEffect_callback_eq
  by (cases http_get "[] @ [Call_setIsFetching True]" rule: fetchPosts_cases)
     (simp_all add: reachable_states_def state_after_def initial_state_def)

theorem error_and_posts_never_both_witness:
  "\<lparr>fetchedPosts = None, isFetching = False, error = Some ''Failed to fetch data.''\<rparr>
     \<in> set (reachable_states (useEffect_callback (\<lambda>url. Inl (ErrorInstance ''Failed to fetch data.'')) [])) \<and>
   (error \<lparr>fetchedPosts = None, isFetching = False, error = Some ''Failed to fetch data.''\<rparr> = None \<or>
    fetchedPosts \<lparr>fetchedPosts = None, isFetching = False, error = Some ''Failed to fetch data.''\<rparr> = None)"
proof -
  let ?s = "\<lparr>fetchedPosts = None, isFetching = False, error = Some ''Failed to fetch data.''\<rparr>"
  let ?g = "\<lambda>url :: string. Inl (ErrorInstance ''Failed to fetch data.'') :: thrown + js_value"
  have "fetchPosts ?g [Call_setIsFetching True] =
      [Call_setIsFetching True] @ [Call_setError ''Failed to fetch data.'', Call_setIsFetching False]"
    by (rule fetchPosts_rejected_Error [where http_get = ?g]) simp
  then have mem: "?s \<in> set (reachable_states (useEffect_callback ?g []))"
    by (simp add: useEffect_callback_eq reachable_states_def state_after_def initial_state_def)
  from error_and_posts_never_both [of ?g] mem
  have "error ?s = None \<or> fetchedPosts ?s = None"
    by (rule bspec)
  with mem show ?thesis
    by (rule conjI)
qed

end
